theory Spec2Isabelle
  imports Complex_Main
begin

section \<open>Plot styles: \<open>get_style_list\<close> (lobsterpy/plotting/__init__.py)\<close>

text \<open>
  A matplotlib style is the name or path of a style sheet, or a dict of rcParam options.
  The values of the options are left polymorphic.
\<close>

datatype 'v style = StyleName string | StyleDict "(string \<times> 'v) list"

text \<open>
  Python lists are objects: the caller's \<open>styles\<close> argument is a reference. The heap maps
  an address to the list stored there; \<open>next_free\<close> is the next unused address.
\<close>

type_synonym addr = nat

record 'v heap =
  cells :: "addr \<rightharpoonup> 'v style list"
  next_free :: addr

definition heap_wf :: "'v heap \<Rightarrow> bool" where
  "heap_wf h = (\<forall>a. a \<in> dom (cells h) \<longrightarrow> a < next_free h)"

text \<open>A list display \<open>[...]\<close> creates a new list object.\<close>

definition alloc :: "'v heap \<Rightarrow> 'v style list \<Rightarrow> 'v heap \<times> addr" where
  "alloc h xs = (h\<lparr>cells := (cells h)(next_free h \<mapsto> xs), next_free := Suc (next_free h)\<rparr>,
                 next_free h)"

text \<open>
  \<open>a + b\<close> on lists reads both operands and creates a new list object holding their
  concatenation. A reference to no object cannot occur in Python; the model gives \<open>None\<close>.
\<close>

definition list_add :: "'v heap \<Rightarrow> addr \<Rightarrow> addr \<Rightarrow> ('v heap \<times> addr) option" where
  "list_add h a b =
     (case cells h a of
        None \<Rightarrow> None
      | Some xs \<Rightarrow> (case cells h b of None \<Rightarrow> None | Some ys \<Rightarrow> Some (alloc h (xs @ ys))))"

text \<open>
  \<open>get_style_list(no_base_style, styles, **kwargs)\<close>. The module global \<open>base_style\<close>
  (the path of the packaged style sheet) is the first parameter. \<open>styles\<close> is \<open>None\<close> or a
  reference to the caller's list; the keyword arguments are collected into a dict.
\<close>

definition get_style_list ::
  "string \<Rightarrow> 'v heap \<Rightarrow> bool \<Rightarrow> addr option \<Rightarrow> (string \<times> 'v) list \<Rightarrow> ('v heap \<times> addr) option"
where
  "get_style_list base_style h no_base_style styles kwargs =
     (let (h1, base) = (if no_base_style then alloc h [] else alloc h [StyleName base_style]);
          (h2, styles') = (case styles of None \<Rightarrow> alloc h1 [] | Some a \<Rightarrow> (h1, a));
          (h3, kw) = alloc h2 [StyleDict kwargs]
      in case list_add h3 base styles' of
           None \<Rightarrow> None
         | Some (h4, t) \<Rightarrow> list_add h4 t kw)"

text \<open>The list the caller passed: empty when \<open>styles\<close> is \<open>None\<close>.\<close>

definition styles_value :: "'v heap \<Rightarrow> addr option \<Rightarrow> 'v style list option" where
  "styles_value h styles = (case styles of None \<Rightarrow> Some [] | Some a \<Rightarrow> cells h a)"

section \<open>Gaussian broadening: \<open>PlainCohpPlotter._broaden\<close>\<close>

text \<open>
  Arrays of floats are lists of reals. The numpy and scipy functions the method calls are
  written out from their documented behaviour.
\<close>

datatype broaden_error =
    GridNotRegular   \<comment> \<open>the \<open>ValueError\<close> raised by \<open>_broaden\<close> itself\<close>
  | NumericalError   \<comment> \<open>numpy or scipy has no finite result (an exception of theirs, or nan)\<close>

text \<open>\<open>np.diff\<close>: the differences of adjacent elements.\<close>

definition np_diff :: "real list \<Rightarrow> real list" where
  "np_diff xs = map (\<lambda>(a, b). b - a) (zip xs (tl xs))"

text \<open>\<open>np.mean\<close>: nan (here \<open>None\<close>) on an empty array.\<close>

definition np_mean :: "real list \<Rightarrow> real option" where
  "np_mean xs = (if xs = [] then None else Some (sum_list xs / real (length xs)))"

text \<open>
  \<open>np.allclose(a, b, atol=atol)\<close> with a scalar \<open>b\<close>: every element satisfies
  \<open>|a - b| <= atol + rtol * |b|\<close>, where \<open>rtol\<close> keeps its default \<open>1e-05\<close>.
\<close>

definition rtol_default :: real where
  "rtol_default = 1 / 100000"

definition np_allclose :: "real list \<Rightarrow> real \<Rightarrow> real \<Rightarrow> bool" where
  "np_allclose xs b atol = list_all (\<lambda>a. \<bar>a - b\<bar> \<le> atol + rtol_default * \<bar>b\<bar>) xs"

text \<open>
  \<open>np.arange(0, stop, step)\<close>: \<open>ceil(stop / step)\<close> values \<open>i * step\<close>, none when that
  number is not positive. A zero step raises.
\<close>

definition np_arange0 :: "real \<Rightarrow> real \<Rightarrow> real list option" where
  "np_arange0 stop step =
     (if step = 0 then None
      else Some (map (\<lambda>i. real i * step) [0 ..< nat \<lceil>stop / step\<rceil>]))"

text \<open>
  \<open>scipy.stats.norm.pdf(x, scale=sigma)\<close> on an array: the normal density at every
  element; nan unless \<open>sigma > 0\<close>.
\<close>

definition norm_pdf :: "real list \<Rightarrow> real \<Rightarrow> real list option" where
  "norm_pdf xs sigma =
     (if sigma \<le> 0 then None
      else Some (map (\<lambda>x. exp (- ((x / sigma)\<^sup>2) / 2) / (sigma * sqrt (2 * pi))) xs))"

text \<open>
  \<open>scipy.signal.convolve(in1, in2, mode="same")\<close> for one-dimensional arrays: the full
  discrete convolution, of length \<open>len(in1) + len(in2) - 1\<close>, cut to the length of \<open>in1\<close>
  around its centre. Empty operands have no convolution.
\<close>

definition conv_full :: "real list \<Rightarrow> real list \<Rightarrow> real list" where
  "conv_full xs ks =
     map (\<lambda>n. \<Sum>k \<leftarrow> [0 ..< length xs]. if k \<le> n \<and> n - k < length ks then xs ! k * ks ! (n - k) else 0)
         [0 ..< length xs + length ks - 1]"

definition convolve_same :: "real list \<Rightarrow> real list \<Rightarrow> real list option" where
  "convolve_same xs ks =
     (if xs = [] \<or> ks = [] then None
      else Some (take (length xs) (drop ((length ks - 1) div 2) (conv_full xs ks))))"

text \<open>
  The broadening kernel's mesh: \<open>np.concatenate([-kernel_x[-1:1:-1], kernel_x])\<close>. The slice
  \<open>[-1:1:-1]\<close> runs from the last element down to index 2.
\<close>

definition kernel_mesh :: "real list \<Rightarrow> real list" where
  "kernel_mesh kernel_x = map uminus (rev (drop 2 kernel_x)) @ kernel_x"

definition broaden ::
  "real list \<Rightarrow> real list \<Rightarrow> real option \<Rightarrow> real \<Rightarrow> broaden_error + real list"
where
  "broaden energies population sigma cutoff =
     (case sigma of
        None \<Rightarrow> Inr population
      | Some s \<Rightarrow>
          (case np_mean (np_diff energies) of
             None \<Rightarrow> Inl NumericalError
           | Some spacing \<Rightarrow>
               if \<not> np_allclose (np_diff energies) spacing (1 / 100000) then Inl GridNotRegular
               else
                 (case np_arange0 (cutoff * s + 0.5 * spacing) spacing of
                    None \<Rightarrow> Inl NumericalError
                  | Some kernel_x \<Rightarrow>
                      (case norm_pdf (kernel_mesh kernel_x) s of
                         None \<Rightarrow> Inl NumericalError
                       | Some kern \<Rightarrow>
                           (case convolve_same population kern of
                              None \<Rightarrow> Inl NumericalError
                            | Some c \<Rightarrow> Inr (map (\<lambda>y. y / sum_list kern) c))))))"



section \<open>The plot action of the command line: \<open>run\<close> (lobsterpy/cli.py)\<close>

text \<open>\<open>str\<close> of a Python int: decimal digits, with a minus sign when negative.\<close>

definition digit_char :: "nat \<Rightarrow> char" where
  "digit_char d = char_of (48 + d)"

function str_nat :: "nat \<Rightarrow> string" where
  "str_nat n = (if n < 10 then [digit_char n] else str_nat (n div 10) @ [digit_char (n mod 10)])"
  by pat_completeness auto
termination
  by (relation "measure id") auto

declare str_nat.simps [simp del]

definition str_int :: "int \<Rightarrow> string" where
  "str_int i = (if i < 0 then CHR ''-'' # str_nat (nat (- i)) else str_nat (nat i))"

text \<open>\<open>str\<close> of a list of ints: \<open>[1, 2, 3]\<close>.\<close>

fun join_comma :: "string list \<Rightarrow> string" where
  "join_comma [] = []"
| "join_comma [x] = x"
| "join_comma (x # y # ys) = x @ '', '' @ join_comma (y # ys)"

definition str_int_list :: "int list \<Rightarrow> string" where
  "str_int_list xs = ''['' @ join_comma (map str_int xs) @ '']''"

text \<open>
  The parsed command line of the \<open>plot\<close> action, as far as the selection of curves reads it.
\<close>

record plot_args =
  bond_numbers :: "int list"
  summed :: bool
  orbitalwise :: "string list option"

text \<open>
  The \<open>CompleteCohp\<close> object of pymatgen, read from the files: the keys of its \<open>bonds\<close> dict,
  its \<open>orb_res_cohp\<close> dict (for every label the orbital names in order, with their curves)
  and its three lookups. A lookup that raises inside pymatgen gives \<open>None\<close>. The curves
  themselves are of an arbitrary type.
\<close>

record 'c complete_cohp =
  bonds_keys :: "string list"
  orb_res_cohp :: "string \<rightharpoonup> (string \<times> 'c) list"
  get_cohp_by_label :: "string \<Rightarrow> 'c option"
  get_orbital_resolved_cohp :: "string \<Rightarrow> string \<Rightarrow> 'c option"
  get_summed_cohp_by_label_list :: "string list \<Rightarrow> 'c option"

datatype cli_error =
    BondLabelNotAvailable int "int list"
      \<comment> \<open>\<open>IndexError\<close>: the label, and the allowed labels of the message\<close>
  | KeyNotInteger
      \<comment> \<open>\<open>ValueError\<close> of \<open>int(listi)\<close> while that message is built\<close>
  | OrbitalCountMismatch
      \<comment> \<open>\<open>IndexError\<close>: as many orbitals as bond labels are needed\<close>
  | OrbitalNotAvailable int "string list"
      \<comment> \<open>\<open>IndexError\<close>: the label, and the orbital options of the message\<close>
  | LibraryError
      \<comment> \<open>an exception raised inside pymatgen\<close>

text \<open>
  The plotter \<open>cp\<close>: the \<open>add_cohp\<close> calls made so far, in order, each with its key (the
  int label, or a string) and its curve.
\<close>

datatype plot_key = IntKey int | StrKey string

type_synonym 'c plotter = "(plot_key \<times> 'c) list"

text \<open>
  The first loop over \<open>args.bond_numbers\<close>: the first label whose \<open>str\<close> is not a key of
  \<open>completecohp.bonds\<close> raises. The message lists \<open>int(listi)\<close> for every key; \<open>py_int\<close>
  is Python's \<open>int\<close> on strings (\<open>None\<close> where it raises).
\<close>

fun check_labels :: "(string \<Rightarrow> int option) \<Rightarrow> string list \<Rightarrow> int list \<Rightarrow> cli_error option" where
  "check_labels py_int keys [] = None"
| "check_labels py_int keys (label # rest) =
     (if str_int label \<notin> set keys then
        (case those (map py_int keys) of
           None \<Rightarrow> Some KeyNotInteger
         | Some allowed \<Rightarrow> Some (BondLabelNotAvailable label allowed))
      else check_labels py_int keys rest)"

text \<open>\<open>for label in args.bond_numbers: cp.add_cohp(label, completecohp.get_cohp_by_label(...))\<close>\<close>

fun add_cohps ::
  "'c complete_cohp \<Rightarrow> 'c plotter \<Rightarrow> int list \<Rightarrow> (cli_error \<times> 'c plotter) + 'c plotter"
where
  "add_cohps cc cp [] = Inr cp"
| "add_cohps cc cp (label # rest) =
     (case get_cohp_by_label cc (str_int label) of
        None \<Rightarrow> Inl (LibraryError, cp)
      | Some c \<Rightarrow> add_cohps cc (cp @ [(IntKey label, c)]) rest)"

text \<open>The inner loop of the \<open>"all"\<close> option: every available orbital of one bond.\<close>

fun add_all_orbitals ::
  "'c complete_cohp \<Rightarrow> 'c plotter \<Rightarrow> int \<Rightarrow> string list \<Rightarrow> (cli_error \<times> 'c plotter) + 'c plotter"
where
  "add_all_orbitals cc cp label [] = Inr cp"
| "add_all_orbitals cc cp label (orbitals # rest) =
     (case get_orbital_resolved_cohp cc (str_int label) orbitals of
        None \<Rightarrow> Inl (LibraryError, cp)
      | Some c \<Rightarrow>
          add_all_orbitals cc (cp @ [(StrKey (str_int label @ '': '' @ orbitals), c)]) label rest)"

text \<open>\<open>for ilabel, label in enumerate(args.bond_numbers)\<close>, with \<open>args.orbitalwise[ilabel]\<close>.\<close>

fun add_orbitalwise ::
  "'c complete_cohp \<Rightarrow> 'c plotter \<Rightarrow> (int \<times> string) list \<Rightarrow> (cli_error \<times> 'c plotter) + 'c plotter"
where
  "add_orbitalwise cc cp [] = Inr cp"
| "add_orbitalwise cc cp ((label, orbitals) # rest) =
     (case orb_res_cohp cc (str_int label) of
        None \<Rightarrow> Inl (LibraryError, cp)
      | Some res \<Rightarrow>
          (let availableorbitals = map fst res;
               orbitaloptions = availableorbitals @ [''all'']
           in if orbitals \<notin> set orbitaloptions then
                Inl (OrbitalNotAvailable label orbitaloptions, cp)
              else if orbitals \<noteq> ''all'' then
                (case get_orbital_resolved_cohp cc (str_int label) orbitals of
                   None \<Rightarrow> Inl (LibraryError, cp)
                 | Some c \<Rightarrow>
                     add_orbitalwise cc (cp @ [(StrKey (str_int label @ '': '' @ orbitals), c)]) rest)
              else
                (case add_all_orbitals cc cp label availableorbitals of
                   Inl e \<Rightarrow> Inl e
                 | Inr cp' \<Rightarrow> add_orbitalwise cc cp' rest)))"

text \<open>
  The \<open>plot\<close> action from the new plotter up to the call of \<open>get_plot\<close>: the result is the
  plotter handed to \<open>get_plot\<close>, or the exception together with the plotter as it was when
  the exception was raised.
\<close>

definition run_plot ::
  "(string \<Rightarrow> int option) \<Rightarrow> 'c complete_cohp \<Rightarrow> plot_args \<Rightarrow> (cli_error \<times> 'c plotter) + 'c plotter"
where
  "run_plot py_int cc args =
     (if \<not> summed args then
        (case check_labels py_int (bonds_keys cc) (bond_numbers args) of
           Some e \<Rightarrow> Inl (e, [])
         | None \<Rightarrow>
             (case orbitalwise args of
                None \<Rightarrow> add_cohps cc [] (bond_numbers args)
              | Some [] \<Rightarrow> add_cohps cc [] (bond_numbers args)
              | Some ows \<Rightarrow>
                  if length (bond_numbers args) \<noteq> length ows then Inl (OrbitalCountMismatch, [])
                  else add_orbitalwise cc [] (zip (bond_numbers args) ows)))
      else
        (case get_summed_cohp_by_label_list cc (map str_int (bond_numbers args)) of
           None \<Rightarrow> Inl (LibraryError, [])
         | Some c \<Rightarrow> Inr [(StrKey (str_int_list (bond_numbers args)), c)]))"

section \<open>The analysis engine\<close>

text \<open>
  The module lobsterpy/cohp/analyze.py (the class \<open>Analysis\<close>) is not among the sources: the
  definitions of this section follow the specification's description of the engine, each
  one naming the sentence it is taken from.
\<close>

text \<open>
  Modelled from the spec: the which-bonds policy of the missing \<open>Analysis\<close> class,
  \<open>which_bonds\<close> in \<open>{cation-anion, all}\<close>.
\<close>

datatype which_bonds = CationAnion | AllBonds

text \<open>
  Modelled from the spec: the error taxonomy of the missing engine, as far as the selection
  and the builder raise it.
\<close>

datatype analysis_error = MissingDataError | InvalidCutoffError | UndefinedPercentage

text \<open>
  Modelled from the spec: the CandidateBond of the missing selector, a pair of sites with
  its interaction-strength summary value (the integrated population at the Fermi level;
  negative is bonding) and the label of its curve. \<open>site_a\<close> is the central site.
\<close>

record candidate_bond =
  site_a :: nat
  site_b :: nat
  strength :: real
  curve_label :: string




text \<open>
  Modelled from the spec: the strongest (most negative, most bonding) interaction the
  missing selector finds for a central site.
\<close>

definition strongest_for :: "candidate_bond list \<Rightarrow> nat \<Rightarrow> real" where
  "strongest_for cs s = Min (set (map strength (filter (\<lambda>c. site_a c = s) cs)))"





text \<open>
  Modelled from the spec: the RelevantBondGroup of the missing classifier, one central site
  with its selected bonds of one partner species and the two percentages.
\<close>

record bond_group =
  central_site :: nat
  partner :: string
  members :: "candidate_bond list"
  bonding_perc :: real
  antibonding_perc :: real

text \<open>
  Modelled from the spec: the percentages of the missing classifier, contribution magnitude
  / (bonding magnitude + antibonding magnitude), from the signed bonding and antibonding
  contributions of the integration up to the Fermi level. A zero total has no quotient.
\<close>

definition percentages :: "real \<Rightarrow> real \<Rightarrow> (real \<times> real) option" where
  "percentages bonding antibonding =
     (if \<bar>bonding\<bar> + \<bar>antibonding\<bar> = 0 then None
      else Some (\<bar>bonding\<bar> / (\<bar>bonding\<bar> + \<bar>antibonding\<bar>),
                 \<bar>antibonding\<bar> / (\<bar>bonding\<bar> + \<bar>antibonding\<bar>)))"

text \<open>
  Modelled from the spec: \<open>classify\<close> of the missing Interaction Classifier for one central
  site and partner species, given the contributions of the integration.
\<close>

definition classify ::
  "nat \<Rightarrow> string \<Rightarrow> candidate_bond list \<Rightarrow> real \<Rightarrow> real \<Rightarrow> analysis_error + bond_group"
where
  "classify s p ms bonding antibonding =
     (case percentages bonding antibonding of
        None \<Rightarrow> Inl UndefinedPercentage
      | Some (bp, ap) \<Rightarrow>
          Inr \<lparr>central_site = s, partner = p, members = ms,
               bonding_perc = bp, antibonding_perc = ap\<rparr>)"

text \<open>
  Modelled from the spec: a site entry of the missing builder's CondensedAnalysis, with the
  site's index in the structure, its label \<open><Species><1-based-index>\<close> and the groups
  merged under it.
\<close>

record site_entry =
  site_index :: nat
  site_label :: string
  groups :: "bond_group list"

text \<open>
  Modelled from the spec: the missing builder's top-level result, the site entries with
  the which-bonds policy and the two optional Madelung energies.
\<close>

record condensed_analysis =
  sites :: "site_entry list"
  which :: which_bonds
  madelung_mull :: "real option"
  madelung_loew :: "real option"

text \<open>
  Modelled from the spec: the missing builder's order of the members of a group, by
  descending interaction-strength magnitude (strongest first).
\<close>

definition order_members :: "bond_group \<Rightarrow> bond_group" where
  "order_members g = g\<lparr>members := sort_key (\<lambda>m. - \<bar>strength m\<bar>) (members g)\<rparr>"

text \<open>
  Modelled from the spec: the missing builder's entry for one site of the structure (the
  species of every site, in order). A site that the structure does not have fails with
  \<open>MissingDataError\<close>.
\<close>

definition build_site :: "string list \<Rightarrow> bond_group list \<Rightarrow> nat \<Rightarrow> analysis_error + site_entry" where
  "build_site structure gs i =
     (if length structure \<le> i then Inl MissingDataError
      else Inr \<lparr>site_index = i,
                site_label = structure ! i @ str_nat (i + 1),
                groups = map order_members (filter (\<lambda>g. central_site g = i) gs)\<rparr>)"

text \<open>
  Modelled from the spec: the missing builder's entries for a list of sites, in the order
  of the list; the first site that the structure does not have fails.
\<close>

fun build_sites :: "string list \<Rightarrow> bond_group list \<Rightarrow> nat list \<Rightarrow> analysis_error + site_entry list" where
  "build_sites structure gs [] = Inr []"
| "build_sites structure gs (i # rest) =
     (case build_site structure gs i of
        Inl e \<Rightarrow> Inl e
      | Inr entry \<Rightarrow>
          (case build_sites structure gs rest of
             Inl e \<Rightarrow> Inl e
           | Inr entries \<Rightarrow> Inr (entry # entries)))"

text \<open>
  Modelled from the spec: \<open>build\<close> of the missing Condensed Analysis Builder. Sites are
  emitted in ascending original-structure index order, the groups of one central site are
  merged under that site, and the Madelung energies are passed on as they were supplied.
\<close>

definition build ::
  "string list \<Rightarrow> bond_group list \<Rightarrow> which_bonds \<Rightarrow> real option \<Rightarrow> real option
     \<Rightarrow> analysis_error + condensed_analysis"
where
  "build structure relevant_bond_groups wb mm ml =
     (case build_sites structure relevant_bond_groups
             (sort (remdups (map central_site relevant_bond_groups))) of
        Inl e \<Rightarrow> Inl e
      | Inr entries \<Rightarrow>
          Inr \<lparr>sites = entries, which = wb, madelung_mull = mm, madelung_loew = ml\<rparr>)"

text \<open>
  Modelled from the spec: the values of the JSON-equivalent top-level mapping of the
  missing builder's output, which has one key per site label and the keys \<open>Madelung_Mull\<close>
  and \<open>Madelung_Loew\<close> when the fields are present.
\<close>

datatype json_value = SiteObject "bond_group list" | JsonNumber real

text \<open>
  Modelled from the spec: the Madelung fields of the missing builder's mapping, added when
  the charge data included them and left out otherwise.
\<close>

definition madelung_fields :: "condensed_analysis \<Rightarrow> (string \<times> json_value) list" where
  "madelung_fields ca =
     (case madelung_mull ca of None \<Rightarrow> [] | Some v \<Rightarrow> [(''Madelung_Mull'', JsonNumber v)]) @
     (case madelung_loew ca of None \<Rightarrow> [] | Some v \<Rightarrow> [(''Madelung_Loew'', JsonNumber v)])"

text \<open>
  Modelled from the spec: the missing builder's top-level mapping, the site entries in
  their order followed by the Madelung fields.
\<close>

definition to_json :: "condensed_analysis \<Rightarrow> (string \<times> json_value) list" where
  "to_json ca = map (\<lambda>e. (site_label e, SiteObject (groups e))) (sites ca) @ madelung_fields ca"

section \<open>Concrete inputs\<close>

text \<open>A heap holding one list, the caller's styles, at address 0.\<close>

definition heap0 :: "nat heap" where
  "heap0 = \<lparr>cells = [0 \<mapsto> [StyleName ''dark_background'']], next_free = 1\<rparr>"

text \<open>A store with the curves of the bonds 1 and 2, and a request for the bonds 1 and 3.\<close>

definition cc0 :: "nat complete_cohp" where
  "cc0 = \<lparr>bonds_keys = [''1'', ''2''], orb_res_cohp = Map.empty,
          get_cohp_by_label = (\<lambda>l. if l \<in> set [''1'', ''2''] then Some 0 else None),
          get_orbital_resolved_cohp = (\<lambda>l orb. None),
          get_summed_cohp_by_label_list = (\<lambda>ls. None)\<rparr>"

definition py_int0 :: "string \<Rightarrow> int option" where
  "py_int0 k = (if k = ''1'' then Some 1 else if k = ''2'' then Some 2 else None)"

definition args0 :: plot_args where
  "args0 = \<lparr>bond_numbers = [1, 3], summed = False, orbitalwise = None\<rparr>"



definition bond1 :: candidate_bond where
  "bond1 = \<lparr>site_a = 0, site_b = 1, strength = - 1, curve_label = ''1''\<rparr>"

definition bond2 :: candidate_bond where
  "bond2 = \<lparr>site_a = 0, site_b = 2, strength = - (1 / 20), curve_label = ''2''\<rparr>"


definition group0 :: bond_group where
  "group0 = \<lparr>central_site = 0, partner = ''Cl'', members = [bond2, bond1],
             bonding_perc = 3 / 4, antibonding_perc = 1 / 4\<rparr>"

definition analysis0 :: condensed_analysis where
  "analysis0 =
     \<lparr>sites = [\<lparr>site_index = 0, site_label = ''Na1'',
                 groups = [group0\<lparr>members := [bond1, bond2]\<rparr>]\<rparr>],
      which = CationAnion, madelung_mull = Some (- 52), madelung_loew = None\<rparr>"

section \<open>Properties of the plot styles\<close>

lemma heap_wf_fresh: "heap_wf h \<Longrightarrow> next_free h \<le> a \<Longrightarrow> cells h a = None"
  by (auto simp: heap_wf_def dom_def)

text \<open>
  Claim C10. On a well-formed heap, \<open>get_style_list\<close> returns a new list object holding the
  base style (left out exactly when \<open>no_base_style\<close> is true), then the user's styles
  (none when \<open>styles\<close> is \<open>None\<close>), then the dict of the keyword arguments as the last
  element; every list that existed before the call, the caller's among them, is unchanged.
\<close>

theorem get_style_list_concat:
  assumes wf: "heap_wf h" and sv: "styles_value h styles = Some us"
  shows "\<exists>h' r. get_style_list base_style h no_base_style styles kwargs = Some (h', r)
           \<and> cells h' r =
               Some ((if no_base_style then [] else [StyleName base_style]) @ us @ [StyleDict kwargs])
           \<and> last ((if no_base_style then [] else [StyleName base_style]) @ us @ [StyleDict kwargs])
               = StyleDict kwargs
           \<and> (\<forall>a. a \<in> dom (cells h) \<longrightarrow> cells h' a = cells h a)
           \<and> r \<notin> dom (cells h)"
proof (cases styles)
  case None
  with sv have us: "us = []" by (simp add: styles_value_def)
  have f: "\<And>a. next_free h \<le> a \<Longrightarrow> cells h a = None" using wf by (rule heap_wf_fresh)
  show ?thesis using None us f wf
    by (auto simp: get_style_list_def alloc_def list_add_def Let_def heap_wf_def dom_def
        split: option.splits)
next
  case (Some a)
  with sv have ca: "cells h a = Some us" by (simp add: styles_value_def)
  then have lt: "a < next_free h" using wf by (auto simp: heap_wf_def)
  show ?thesis using Some ca lt wf
    by (auto simp: get_style_list_def alloc_def list_add_def Let_def heap_wf_def dom_def
        split: option.splits)
qed

theorem get_style_list_concat_witness:
  "heap_wf heap0 \<and> styles_value heap0 (Some 0) = Some [StyleName ''dark_background''] \<and>
   (\<exists>h' r. get_style_list ''base.mplstyle'' heap0 False (Some 0) [(''font.size'', 12)] = Some (h', r)
      \<and> cells h' r = Some [StyleName ''base.mplstyle'', StyleName ''dark_background'',
                            StyleDict [(''font.size'', 12)]]
      \<and> cells h' 0 = Some [StyleName ''dark_background''])"
proof -
  have h1: "heap_wf heap0" by (simp add: heap_wf_def heap0_def)
  have h2: "styles_value heap0 (Some 0) = Some [StyleName ''dark_background'']"
    by (simp add: styles_value_def heap0_def)
  have d: "0 \<in> dom (cells heap0)" by (simp add: heap0_def)
  from get_style_list_concat [OF h1 h2, of "''base.mplstyle''" False "[(''font.size'', 12)]"]
  obtain h' r where
    g: "get_style_list ''base.mplstyle'' heap0 False (Some 0) [(''font.size'', 12)] = Some (h', r)"
    and c: "cells h' r = Some ((if False then [] else [StyleName ''base.mplstyle''])
              @ [StyleName ''dark_background''] @ [StyleDict [(''font.size'', 12)]])"
    and u: "\<forall>a. a \<in> dom (cells heap0) \<longrightarrow> cells h' a = cells heap0 a"
    by blast
  from u d have "cells h' 0 = cells heap0 0" by blast
  then have "cells h' 0 = Some [StyleName ''dark_background'']" by (simp add: heap0_def)
  with g c h1 h2 show ?thesis by simp
qed

section \<open>Properties of the broadening\<close>

text \<open>
  Claim C9. With \<open>sigma = None\<close> the broadening returns the population as it is, for every
  energy series: the grid is not looked at, so an irregular one is accepted.
\<close>

theorem broaden_none_identity:
  "broaden energies population None cutoff = Inr population"
  by (simp add: broaden_def)









text \<open>
  The mesh of the kernel leaves out the point \<open>- spacing\<close>: the slice of the source stops
  before index 1, so the mesh of three points 0, d, 2d is -2d, 0, d, 2d.
\<close>

lemma kernel_mesh_three: "kernel_mesh [0, d, 2 * d] = [- (2 * d), 0, d, 2 * d]"
  by (simp add: kernel_mesh_def)





text \<open>
  Grids that pass the test of the code and still give no broadened series: a constant grid
  (the step of \<open>np.arange\<close> is zero) and a grid of one point (the mean of no spacing is nan).
\<close>

lemma broaden_constant_grid: "broaden [1, 1, 1] [1, 1, 1] (Some 1) 4 = Inl NumericalError"
  by (simp add: broaden_def np_mean_def np_diff_def np_allclose_def np_arange0_def)

lemma broaden_single_point: "broaden [5] [1] (Some 1) 4 = Inl NumericalError"
  by (simp add: broaden_def np_mean_def np_diff_def)




section \<open>Properties of the plot action\<close>

lemma check_labels_missing:
  "\<exists>l\<in>set ls. str_int l \<notin> set keys \<Longrightarrow>
   \<exists>e. check_labels py_int keys ls = Some e \<and>
       (e = KeyNotInteger \<or>
        (\<exists>m allowed. e = BondLabelNotAvailable m allowed \<and> m \<in> set ls \<and> str_int m \<notin> set keys))"
proof (induction ls)
  case Nil
  then show ?case by simp
next
  case (Cons l ls)
  show ?case
  proof (cases "str_int l \<in> set keys")
    case True
    with Cons.prems have "\<exists>l\<in>set ls. str_int l \<notin> set keys" by auto
    from Cons.IH [OF this] True show ?thesis by auto
  next
    case False
    then show ?thesis by (cases "those (map py_int keys)") auto
  qed
qed

text \<open>
  Claim C5. When a requested bond number is not among the keys of the store, the plot action
  ends in an exception and no curve has been added to the plotter. For a request that is
  not summed the exception is raised by the first loop of \<open>run\<close> (the \<open>IndexError\<close> naming
  the label, or the \<open>ValueError\<close> of building its message); for a summed request \<open>run\<close>
  makes no check of its own, and the exception is that of pymatgen's lookup.
\<close>

theorem run_plot_missing_label:
  assumes "l \<in> set (bond_numbers args)"
    and "str_int l \<notin> set (bonds_keys cc)"
    and "summed args \<longrightarrow> get_summed_cohp_by_label_list cc (map str_int (bond_numbers args)) = None"
  shows "\<exists>e. run_plot py_int cc args = Inl (e, []) \<and>
           (\<not> summed args \<longrightarrow>
              e = KeyNotInteger \<or>
              (\<exists>m allowed. e = BondLabelNotAvailable m allowed \<and> m \<in> set (bond_numbers args)
                 \<and> str_int m \<notin> set (bonds_keys cc)))"
proof (cases "summed args")
  case True
  with assms(3) show ?thesis by (simp add: run_plot_def)
next
  case False
  from assms(1,2) have "\<exists>l\<in>set (bond_numbers args). str_int l \<notin> set (bonds_keys cc)" by blast
  from check_labels_missing [OF this, of py_int] False show ?thesis
    by (auto simp: run_plot_def)
qed

theorem run_plot_missing_label_witness:
  "3 \<in> set (bond_numbers args0) \<and> str_int 3 \<notin> set (bonds_keys cc0) \<and>
   (\<exists>e. run_plot py_int0 cc0 args0 = Inl (e, []))"
proof -
  have h1: "3 \<in> set (bond_numbers args0)" by (simp add: args0_def)
  have h2: "str_int 3 \<notin> set (bonds_keys cc0)" unfolding cc0_def by code_simp
  have h3: "summed args0 \<longrightarrow>
      get_summed_cohp_by_label_list cc0 (map str_int (bond_numbers args0)) = None"
    by (simp add: args0_def)
  from run_plot_missing_label [OF h1 h2 h3, of py_int0] h1 h2 show ?thesis by blast
qed

lemma run_plot_args0:
  "run_plot py_int0 cc0 args0 = Inl (BondLabelNotAvailable 3 [1, 2], [])"
  unfolding cc0_def args0_def py_int0_def by code_simp

section \<open>Properties of the analysis engine\<close>






lemma strongest0: "strongest_for [bond1, bond2] 0 = - 1"
  by (simp add: strongest_for_def bond1_def bond2_def)



text \<open>
  Claim C2. In every group the classifier produces, the bonding and the antibonding
  percentage lie in [0,1] and their sum is 1 within 1e-6. The percentages are reals, hence
  finite.
\<close>

theorem classify_percentages:
  assumes "classify s p ms bonding antibonding = Inr g"
  shows "0 \<le> bonding_perc g \<and> bonding_perc g \<le> 1
       \<and> 0 \<le> antibonding_perc g \<and> antibonding_perc g \<le> 1
       \<and> \<bar>bonding_perc g + antibonding_perc g - 1\<bar> \<le> 1 / 1000000"
proof -
  let ?t = "\<bar>bonding\<bar> + \<bar>antibonding\<bar>"
  from assms have t: "?t \<noteq> 0"
    by (auto simp: classify_def percentages_def split: if_splits)
  then have tp: "0 < ?t" by linarith
  from assms t have bp: "bonding_perc g = \<bar>bonding\<bar> / ?t" and ap: "antibonding_perc g = \<bar>antibonding\<bar> / ?t"
    by (auto simp: classify_def percentages_def split: if_splits)
  have s: "bonding_perc g + antibonding_perc g = 1"
    using tp by (simp add: bp ap add_divide_distrib [symmetric])
  have b0: "0 \<le> bonding_perc g" using tp by (simp add: bp)
  have a0: "0 \<le> antibonding_perc g" using tp by (simp add: ap)
  from s b0 a0 show ?thesis by simp
qed

lemma classify_defined:
  "bonding \<noteq> 0 \<or> antibonding \<noteq> 0 \<Longrightarrow> \<exists>g. classify s p ms bonding antibonding = Inr g"
  by (auto simp: classify_def percentages_def)

lemma classify0:
  "classify 0 ''Cl'' [bond2, bond1] (- 3) 1 = Inr group0"
  by (simp add: classify_def percentages_def group0_def)

theorem classify_percentages_witness:
  "classify 0 ''Cl'' [bond2, bond1] (- 3) 1 = Inr group0
   \<and> \<bar>bonding_perc group0 + antibonding_perc group0 - 1\<bar> \<le> 1 / 1000000"
  using classify_percentages [OF classify0] classify0 by blast




lemma str_nat_last: "str_nat n \<noteq> [] \<and> last (str_nat n) = digit_char (n mod 10)"
  by (subst (1 2) str_nat.simps) simp

lemma of_char_digit: "d < 10 \<Longrightarrow> (of_char (digit_char d) :: nat) = 48 + d"
  by (simp add: digit_char_def)

lemma digit_char_not_letter:
  assumes "d < 10"
  shows "digit_char d \<noteq> CHR ''l''" and "digit_char d \<noteq> CHR ''w''"
proof -
  from of_char_digit [OF assms] have o: "(of_char (digit_char d) :: nat) = 48 + d" .
  show "digit_char d \<noteq> CHR ''l''"
  proof
    assume "digit_char d = CHR ''l''"
    then have "(of_char (digit_char d) :: nat) = of_char CHR ''l''" by simp
    with o assms show False by simp
  qed
  show "digit_char d \<noteq> CHR ''w''"
  proof
    assume "digit_char d = CHR ''w''"
    then have "(of_char (digit_char d) :: nat) = of_char CHR ''w''" by simp
    with o assms show False by simp
  qed
qed

lemma label_not_madelung:
  "sp @ str_nat n \<noteq> ''Madelung_Mull''" "sp @ str_nat n \<noteq> ''Madelung_Loew''"
proof -
  have l: "last (sp @ str_nat n) = digit_char (n mod 10)" using str_nat_last [of n] by simp
  have d: "n mod 10 < 10" by simp
  show "sp @ str_nat n \<noteq> ''Madelung_Mull''"
  proof
    assume "sp @ str_nat n = ''Madelung_Mull''"
    then have "last (sp @ str_nat n) = last ''Madelung_Mull''" by simp
    with l have "digit_char (n mod 10) = CHR ''l''" by simp
    with digit_char_not_letter(1) [OF d] show False by simp
  qed
  show "sp @ str_nat n \<noteq> ''Madelung_Loew''"
  proof
    assume "sp @ str_nat n = ''Madelung_Loew''"
    then have "last (sp @ str_nat n) = last ''Madelung_Loew''" by simp
    with l have "digit_char (n mod 10) = CHR ''w''" by simp
    with digit_char_not_letter(2) [OF d] show False by simp
  qed
qed

lemma build_sites_entries:
  "build_sites structure gs is = Inr es \<Longrightarrow>
     map site_index es = is
   \<and> (\<forall>e\<in>set es. site_label e = structure ! site_index e @ str_nat (site_index e + 1)
         \<and> groups e = map order_members (filter (\<lambda>g. central_site g = site_index e) gs))"
proof (induction "is" arbitrary: es)
  case Nil
  then show ?case by simp
next
  case (Cons i "is")
  from Cons.prems obtain entry entries where
    e: "build_site structure gs i = Inr entry" and r: "build_sites structure gs is = Inr entries"
    and es: "es = entry # entries"
    by (auto split: sum.splits)
  from e have "site_index entry = i \<and> site_label entry = structure ! i @ str_nat (i + 1)
      \<and> groups entry = map order_members (filter (\<lambda>g. central_site g = i) gs)"
    by (auto simp: build_site_def split: if_splits)
  with Cons.IH [OF r] es show ?case by auto
qed

lemma build_result:
  assumes "build structure gs wb mm ml = Inr ca"
  shows "\<exists>es. build_sites structure gs (sort (remdups (map central_site gs))) = Inr es
           \<and> ca = \<lparr>sites = es, which = wb, madelung_mull = mm, madelung_loew = ml\<rparr>"
  using assms by (auto simp: build_def split: sum.splits)

lemma str_nat_1: "str_nat 1 = ''1''" "str_nat (Suc 0) = ''1''"
  by code_simp+

lemma build0: "build [''Na'', ''Cl''] [group0] CationAnion (Some (- 52)) None = Inr analysis0"
  by (simp add: build_def build_site_def group0_def analysis0_def order_members_def
      bond1_def bond2_def str_nat_1)

text \<open>
  Claim C7. In the top-level mapping of a built analysis the key \<open>Madelung_Mull\<close> is present
  exactly when the Mulliken Madelung energy was supplied, and then holds the supplied
  number (-52.0 when that is what the charge data gave); likewise \<open>Madelung_Loew\<close>. A field
  that was not supplied is absent, not zero. No site label can take the place of either key.
\<close>

theorem build_madelung_fields:
  assumes "build structure gs wb mm ml = Inr ca"
  shows "map_of (to_json ca) ''Madelung_Mull'' = map_option JsonNumber mm
       \<and> map_of (to_json ca) ''Madelung_Loew'' = map_option JsonNumber ml"
proof -
  from build_result [OF assms] obtain es where
    es: "build_sites structure gs (sort (remdups (map central_site gs))) = Inr es"
    and ca: "ca = \<lparr>sites = es, which = wb, madelung_mull = mm, madelung_loew = ml\<rparr>" by blast
  let ?S = "map (\<lambda>e. (site_label e, SiteObject (groups e))) es"
  from build_sites_entries [OF es]
  have lab: "\<forall>e\<in>set es. site_label e = structure ! site_index e @ str_nat (site_index e + 1)" by blast
  have n1: "map_of ?S ''Madelung_Mull'' = None"
    using lab label_not_madelung(1) by (fastforce simp: map_of_eq_None_iff)
  have n2: "map_of ?S ''Madelung_Loew'' = None"
    using lab label_not_madelung(2) by (fastforce simp: map_of_eq_None_iff)
  have j: "to_json ca = ?S @ madelung_fields ca" by (simp add: to_json_def ca)
  have m1: "map_of (madelung_fields ca) ''Madelung_Mull'' = map_option JsonNumber mm"
    by (simp add: madelung_fields_def ca split: option.splits)
  have m2: "map_of (madelung_fields ca) ''Madelung_Loew'' = map_option JsonNumber ml"
    by (simp add: madelung_fields_def ca split: option.splits)
  from n1 n2 m1 m2 show ?thesis by (simp add: j map_add_def)
qed

theorem build_madelung_fields_witness:
  "build [''Na'', ''Cl''] [group0] CationAnion (Some (- 52)) None = Inr analysis0
   \<and> map_of (to_json analysis0) ''Madelung_Mull'' = Some (JsonNumber (- 52))
   \<and> map_of (to_json analysis0) ''Madelung_Loew'' = None"
  using build_madelung_fields [OF build0] build0 by simp





end
